theory Spec2Isabelle
  imports Complex_Main
begin

section \<open>Data model\<close>

text \<open>
  The values \<^verbatim>\<open>json.load\<close> can return and \<^verbatim>\<open>json.dump\<close> can write. A wallet
  record is the dictionary built in \<^verbatim>\<open>create_wallets\<close>, a \<open>JObject\<close> with the four keys
  \<^verbatim>\<open>chain\<close>, \<^verbatim>\<open>address\<close>, \<^verbatim>\<open>private_key\<close> and \<^verbatim>\<open>created_at\<close>. A file may hold any
  other value: the code never looks inside what it loads.
\<close>

datatype json =
    JNull
  | JBool bool
  | JInt int
  | JFloat real
  | JString string
  | JArray "json list"
  | JObject "(string \<times> json) list"

text \<open>
  The wallet file of a chain, as \<^verbatim>\<open>_load_wallets\<close> can find it:
  \<^item> \<open>Missing\<close>: \<^verbatim>\<open>os.path.exists\<close> is false;
  \<^item> \<open>Unreadable\<close>: the path exists and \<^verbatim>\<open>open\<close> raises an \<^verbatim>\<open>OSError\<close>;
  \<^item> \<open>Undecodable\<close>: the bytes are not text in the file's encoding, reading raises
    \<^verbatim>\<open>UnicodeDecodeError\<close>;
  \<^item> \<open>Malformed\<close>: the text is not JSON, \<^verbatim>\<open>json.load\<close> raises \<^verbatim>\<open>JSONDecodeError\<close>;
  \<^item> \<open>TooDeep\<close>: the text nests beyond the recursion limit, \<^verbatim>\<open>json.load\<close> raises
    \<^verbatim>\<open>RecursionError\<close>;
  \<^item> \<open>Stored v\<close>: the text is JSON and \<^verbatim>\<open>json.load\<close> returns \<open>v\<close>, a list or not.
  The serialisation itself is not modelled.
\<close>

datatype disk_file = Missing | Unreadable | Undecodable | Malformed | TooDeep | Stored json

text \<open>
  Exceptions, by class. The builtin classes that occur are constructors; an exception
  of a class defined by a client library (web3, requests, solders, solana) is
  \<open>LibError v b\<close>, where \<open>v\<close> says whether the class derives from \<^verbatim>\<open>ValueError\<close> and \<open>b\<close>
  whether it derives from \<^verbatim>\<open>Web3Exception\<close>. An \<^verbatim>\<open>except\<close> clause sees an exception
  through \<^verbatim>\<open>isinstance\<close> only: \<open>is_ValueError\<close> and \<open>is_Web3Exception\<close> are those tests.
  \<^verbatim>\<open>JSONDecodeError\<close> and \<^verbatim>\<open>UnicodeDecodeError\<close> are subclasses of \<^verbatim>\<open>ValueError\<close>;
  \<^verbatim>\<open>IOError\<close> is \<^verbatim>\<open>OSError\<close>.
\<close>

datatype exn =
    ValueError
  | JSONDecodeError
  | UnicodeDecodeError
  | RecursionError
  | IOError
  | ConnectionError
  | KeyError
  | TypeError
  | AttributeError
  | LibError bool bool

fun is_ValueError :: "exn \<Rightarrow> bool" where
  "is_ValueError ValueError = True"
| "is_ValueError JSONDecodeError = True"
| "is_ValueError UnicodeDecodeError = True"
| "is_ValueError (LibError v b) = v"
| "is_ValueError _ = False"

fun is_Web3Exception :: "exn \<Rightarrow> bool" where
  "is_Web3Exception (LibError v b) = b"
| "is_Web3Exception _ = False"

fun is_JSONDecodeError :: "exn \<Rightarrow> bool" where
  "is_JSONDecodeError JSONDecodeError = True"
| "is_JSONDecodeError _ = False"

text \<open>
  What a write of the wallet file can do. \<^verbatim>\<open>open(path, 'w')\<close> truncates the file
  before \<^verbatim>\<open>json.dump\<close> writes anything, so a write that fails after the file was
  opened leaves a strict prefix of the text of an array, which is not JSON.
\<close>

datatype write_outcome = WriteOk | OpenFails | DumpFails

text \<open>
  Everything outside the process. The key generators and the two RPC endpoints are
  oracles indexed by a tick, the number of external interactions so far, so that
  successive calls see successive answers; an RPC answers or raises an exception of any
  class. The balance oracles answer per address. \<open>block_height\<close> is the integer the
  Solana branch extracts from the response (\<^verbatim>\<open>.value\<close> when the response has it,
  \<^verbatim>\<open>int(...)\<close> otherwise), or the exception raised on the way. \<open>slice_hashable\<close> says
  whether the interpreter is Python 3.12 or later, where a slice is hashable.
\<close>

record env =
  eth_connected :: bool
  sol_connected :: bool
  account_create :: "nat \<Rightarrow> string \<times> string"
  block_timestamp :: "nat \<Rightarrow> exn + int"
  keypair_new :: "nat \<Rightarrow> string \<times> string"
  block_height :: "nat \<Rightarrow> exn + int"
  disk_write :: "nat \<Rightarrow> write_outcome"
  eth_get_balance :: "string \<Rightarrow> exn + int"
  pubkey_from_string :: "string \<Rightarrow> exn + string"
  sol_get_balance :: "string \<Rightarrow> exn + int"
  slice_hashable :: bool

text \<open>The mutable world: the file system (every path, absent by default) and the tick.\<close>

record world =
  files :: "string \<Rightarrow> disk_file"
  tick :: nat

text \<open>
  A manager object. \<open>w3\<close> and \<open>sol_client\<close> say whether the attribute of that name was
  set by the constructor: it sets exactly one of the two.
\<close>

record manager =
  network :: string
  wallet_file :: string
  w3 :: bool
  sol_client :: bool

section \<open>The Python operations the code applies to what it loaded\<close>

text \<open>\<^verbatim>\<open>len(v)\<close>: a dictionary counts its keys, a scalar has no length.\<close>

fun py_len :: "json \<Rightarrow> exn + nat" where
  "py_len (JArray xs) = Inr (length xs)"
| "py_len (JString s) = Inr (length s)"
| "py_len (JObject kvs) = Inr (length (remdups (map fst kvs)))"
| "py_len _ = Inl TypeError"

text \<open>
  \<^verbatim>\<open>v[:n]\<close> for \<open>n \<ge> 0\<close>: a list or a string gives its first \<open>n\<close> items; a dictionary
  takes the slice as a key (\<^verbatim>\<open>TypeError\<close>, unhashable, before Python 3.12 and
  \<^verbatim>\<open>KeyError\<close> from then on); a scalar is not subscriptable.
\<close>

fun py_slice :: "env \<Rightarrow> json \<Rightarrow> nat \<Rightarrow> exn + json" where
  "py_slice e (JArray xs) n = Inr (JArray (take n xs))"
| "py_slice e (JString s) n = Inr (JString (take n s))"
| "py_slice e (JObject kvs) n = Inl (if slice_hashable e then KeyError else TypeError)"
| "py_slice e _ n = Inl TypeError"

text \<open>\<^verbatim>\<open>v.extend(ys)\<close>: only a list has the method.\<close>

fun py_extend :: "json \<Rightarrow> json list \<Rightarrow> exn + json" where
  "py_extend (JArray xs) ys = Inr (JArray (xs @ ys))"
| "py_extend _ ys = Inl AttributeError"

text \<open>\<^verbatim>\<open>v + ys\<close> with \<open>ys\<close> a list: defined for a list only.\<close>

fun py_add :: "json \<Rightarrow> json list \<Rightarrow> exn + json" where
  "py_add (JArray xs) ys = Inr (JArray (xs @ ys))"
| "py_add _ ys = Inl TypeError"

text \<open>\<^verbatim>\<open>v[key]\<close> on a dictionary, \<open>None\<close> when the key is absent or \<open>v\<close> is no dictionary.\<close>

fun dict_get :: "json \<Rightarrow> string \<Rightarrow> json option" where
  "dict_get (JObject kvs) key = map_of kvs key"
| "dict_get _ key = None"

section \<open>The class \<^verbatim>\<open>WalletManager\<close>\<close>

definition WALLET_FILES :: "string \<rightharpoonup> string" where
  "WALLET_FILES = [''eth'' \<mapsto> ''eth_wallets.json'', ''sol'' \<mapsto> ''sol_wallets.json'']"

definition NETWORKS :: "string \<rightharpoonup> string" where
  "NETWORKS = [''eth'' \<mapsto> ''ETH_RPC_API'', ''sol'' \<mapsto> ''SOL_RPC_API'']"

text \<open>The constructor \<^verbatim>\<open>__init__\<close>.\<close>

definition WalletManager_init :: "env \<Rightarrow> string \<Rightarrow> exn + manager" where
  "WalletManager_init e net =
     (if NETWORKS net = None then Inl ValueError
      else (case WALLET_FILES net of
         None \<Rightarrow> Inl KeyError
       | Some f \<Rightarrow>
           (if net = ''sol'' then
              (if \<not> sol_connected e then Inl ConnectionError
               else Inr \<lparr>network = net, wallet_file = f, w3 = False, sol_client = True\<rparr>)
            else
              (if \<not> eth_connected e then Inl ConnectionError
               else Inr \<lparr>network = net, wallet_file = f, w3 = True, sol_client = False\<rparr>))))"

text \<open>
  \<^verbatim>\<open>_load_wallets\<close>: the body of the \<^verbatim>\<open>try\<close>, then the handler, which catches
  \<^verbatim>\<open>json.JSONDecodeError\<close> only. The warning it prints is not modelled.
\<close>

definition read_json :: "disk_file \<Rightarrow> exn + json" where
  "read_json f =
     (case f of
        Missing \<Rightarrow> Inr (JArray [])
      | Unreadable \<Rightarrow> Inl IOError
      | Undecodable \<Rightarrow> Inl UnicodeDecodeError
      | Malformed \<Rightarrow> Inl JSONDecodeError
      | TooDeep \<Rightarrow> Inl RecursionError
      | Stored v \<Rightarrow> Inr v)"

definition load_wallets :: "manager \<Rightarrow> world \<Rightarrow> exn + json" where
  "load_wallets m w =
     (case read_json (files w (wallet_file m)) of
        Inl x \<Rightarrow> (if is_JSONDecodeError x then Inr (JArray []) else Inl x)
      | Inr v \<Rightarrow> Inr v)"

text \<open>
  \<^verbatim>\<open>_save_wallets\<close>: any \<^verbatim>\<open>IOError\<close> of the write is raised again as an
  \<^verbatim>\<open>IOError\<close>.
\<close>

definition save_wallets :: "env \<Rightarrow> manager \<Rightarrow> json \<Rightarrow> world \<Rightarrow> (exn + unit) \<times> world" where
  "save_wallets e m wallets w =
     (case disk_write e (tick w) of
        WriteOk \<Rightarrow>
          (Inr (), w\<lparr>files := (files w)(wallet_file m := Stored wallets), tick := Suc (tick w)\<rparr>)
      | OpenFails \<Rightarrow>
          (Inl IOError, w\<lparr>tick := Suc (tick w)\<rparr>)
      | DumpFails \<Rightarrow>
          (Inl IOError, w\<lparr>files := (files w)(wallet_file m := Malformed), tick := Suc (tick w)\<rparr>))"

text \<open>
  One pass of the loop body of \<^verbatim>\<open>create_wallets\<close> at tick \<open>t\<close>: a fresh key pair and
  the chain's timestamp proxy. Reading \<^verbatim>\<open>self.w3\<close> or \<^verbatim>\<open>self.sol_client\<close> on a manager
  that lacks it raises \<^verbatim>\<open>AttributeError\<close>.
\<close>

definition mint :: "env \<Rightarrow> manager \<Rightarrow> string \<Rightarrow> nat \<Rightarrow> exn + json" where
  "mint e m ch t =
     (if ch = ''eth'' then
        (if \<not> w3 m then Inl AttributeError
         else (case block_timestamp e t of
            Inl x \<Rightarrow> Inl x
          | Inr ts \<Rightarrow>
              Inr (JObject [(''chain'', JString ''eth''),
                            (''address'', JString (fst (account_create e t))),
                            (''private_key'', JString (snd (account_create e t))),
                            (''created_at'', JInt ts)])))
      else
        (if \<not> sol_client m then Inl AttributeError
         else (case block_height e t of
            Inl x \<Rightarrow> Inl x
          | Inr h \<Rightarrow>
              Inr (JObject [(''chain'', JString ''sol''),
                            (''address'', JString (fst (keypair_new e t))),
                            (''private_key'', JString (snd (keypair_new e t))),
                            (''created_at'', JInt h)]))))"

text \<open>
  The loop \<^verbatim>\<open>for _ in range(num_wallets)\<close>: \<open>n\<close> passes left, \<open>acc\<close> is
  \<^verbatim>\<open>new_wallets\<close>. An exception in a pass ends the loop and the call.
\<close>

fun mint_loop :: "env \<Rightarrow> manager \<Rightarrow> string \<Rightarrow> nat \<Rightarrow> nat \<Rightarrow> json list \<Rightarrow> (exn + json list) \<times> nat" where
  "mint_loop e m ch 0 t acc = (Inr acc, t)"
| "mint_loop e m ch (Suc n) t acc =
     (case mint e m ch t of
        Inl x \<Rightarrow> (Inl x, Suc t)
      | Inr wl \<Rightarrow> mint_loop e m ch n (Suc t) (acc @ [wl]))"

text \<open>
  \<^verbatim>\<open>create_wallets\<close>, the spec's \<^verbatim>\<open>generate\<close>. The result is \<^verbatim>\<open>new_wallets\<close>, always a
  list; \<^verbatim>\<open>wallets\<close> is whatever was loaded.
\<close>

definition create_wallets :: "env \<Rightarrow> manager \<Rightarrow> int \<Rightarrow> string \<Rightarrow> world \<Rightarrow> (exn + json list) \<times> world" where
  "create_wallets e m num_wallets ch w =
     (if num_wallets < 0 then (Inl ValueError, w)
      else if ch \<notin> set [''eth'', ''sol''] then (Inl ValueError, w)
      else if ch \<noteq> network m then (Inl ValueError, w)
      else (case load_wallets m w of
         Inl x \<Rightarrow> (Inl x, w)
       | Inr wallets \<Rightarrow>
           (case mint_loop e m ch (nat num_wallets) (tick w) [] of
              (Inl x, t) \<Rightarrow> (Inl x, w\<lparr>tick := t\<rparr>)
            | (Inr new_wallets, t) \<Rightarrow>
                (case py_extend wallets new_wallets of
                   Inl x \<Rightarrow> (Inl x, w\<lparr>tick := t\<rparr>)
                 | Inr extended \<Rightarrow>
                     (case save_wallets e m extended (w\<lparr>tick := t\<rparr>) of
                        (Inl x, w') \<Rightarrow> (Inl x, w')
                      | (Inr u, w') \<Rightarrow> (Inr new_wallets, w'))))))"

text \<open>
  \<^verbatim>\<open>get_balance\<close>: the body of the \<^verbatim>\<open>try\<close>, the classes the handler names, and the
  function. The float quotient is modelled by the real quotient (rounding to a binary
  float is left out); \<open>0\<close> is the float \<^verbatim>\<open>0.0\<close>. The warning printed by the handler is
  not modelled.
\<close>

definition query_balance :: "env \<Rightarrow> manager \<Rightarrow> string \<Rightarrow> string \<Rightarrow> exn + real" where
  "query_balance e m addr ch =
     (if ch = ''eth'' then
        (if \<not> w3 m then Inl AttributeError
         else (case eth_get_balance e addr of
            Inl x \<Rightarrow> Inl x
          | Inr balance_wei \<Rightarrow> Inr (real_of_int balance_wei / 10 ^ 18)))
      else if ch = ''sol'' then
        (case pubkey_from_string e addr of
           Inl x \<Rightarrow> Inl x
         | Inr pubkey \<Rightarrow>
             (if \<not> sol_client m then Inl AttributeError
              else (case sol_get_balance e pubkey of
                 Inl x \<Rightarrow> Inl x
               | Inr lamports \<Rightarrow> Inr (real_of_int lamports / 10 ^ 9))))
      else Inl ValueError)"

definition caught_by_get_balance :: "exn \<Rightarrow> bool" where
  "caught_by_get_balance x = (is_Web3Exception x \<or> is_ValueError x)"

definition get_balance :: "env \<Rightarrow> manager \<Rightarrow> string \<Rightarrow> string \<Rightarrow> exn + real" where
  "get_balance e m addr ch =
     (case query_balance e m addr ch of
        Inl x \<Rightarrow> (if caught_by_get_balance x then Inr 0 else Inl x)
      | Inr b \<Rightarrow> Inr b)"

text \<open>
  \<^verbatim>\<open>manage_wallets\<close>, the spec's \<^verbatim>\<open>ensure_count\<close>. It returns a slice of what was
  loaded, or what was loaded plus the new list.
\<close>

definition manage_wallets :: "env \<Rightarrow> manager \<Rightarrow> int \<Rightarrow> string \<Rightarrow> world \<Rightarrow> (exn + json) \<times> world" where
  "manage_wallets e m requested_num ch w =
     (if requested_num < 0 then (Inl ValueError, w)
      else if ch \<noteq> network m then (Inl ValueError, w)
      else (case load_wallets m w of
         Inl x \<Rightarrow> (Inl x, w)
       | Inr wallets \<Rightarrow>
           (case py_len wallets of
              Inl x \<Rightarrow> (Inl x, w)
            | Inr current_num \<Rightarrow>
                (if requested_num \<le> int current_num then
                   (case py_slice e wallets (nat requested_num) of
                      Inl x \<Rightarrow> (Inl x, w)
                    | Inr v \<Rightarrow> (Inr v, w))
                 else
                   (case create_wallets e m (requested_num - int current_num) ch w of
                      (Inl x, w') \<Rightarrow> (Inl x, w')
                    | (Inr new_wallets, w') \<Rightarrow>
                        (case py_add wallets new_wallets of
                           Inl x \<Rightarrow> (Inl x, w')
                         | Inr v \<Rightarrow> (Inr v, w')))))))"

section \<open>Notions used in the statements\<close>

text \<open>
  The timestamp proxy that a pass of the loop for chain \<open>ch\<close> asks for at tick \<open>t\<close>.
\<close>

definition stamp_rpc :: "env \<Rightarrow> string \<Rightarrow> nat \<Rightarrow> exn + int" where
  "stamp_rpc e ch t = (if ch = ''eth'' then block_timestamp e t else block_height e t)"

text \<open>
  A caller making successive \<^verbatim>\<open>manage_wallets\<close> calls with the requested numbers \<open>ks\<close>,
  going on to the next call whatever the previous one returned or raised.
\<close>

fun manage_calls :: "env \<Rightarrow> manager \<Rightarrow> int list \<Rightarrow> string \<Rightarrow> world \<Rightarrow> world" where
  "manage_calls e m [] ch w = w"
| "manage_calls e m (k # ks) ch w = manage_calls e m ks ch (snd (manage_wallets e m k ch w))"

subsection \<open>Concrete environments\<close>

definition demo_env :: env where
  "demo_env =
     \<lparr>eth_connected = True, sol_connected = True,
      account_create = (\<lambda>t. (''0xA'', ''a1'')),
      block_timestamp = (\<lambda>t. Inr (1700000000 + int t)),
      keypair_new = (\<lambda>t. (''So1'', ''b2'')),
      block_height = (\<lambda>t. Inr (250 + int t)),
      disk_write = (\<lambda>t. WriteOk),
      eth_get_balance = (\<lambda>a. Inr 0),
      pubkey_from_string = (\<lambda>a. if a = ''bad'' then Inl ValueError else Inr a),
      sol_get_balance = (\<lambda>a. Inr 5),
      slice_hashable = True\<rparr>"


definition torn_disk_env :: env where
  "torn_disk_env = demo_env\<lparr>disk_write := (\<lambda>t. DumpFails)\<rparr>"

definition eth_manager :: manager where
  "eth_manager = \<lparr>network = ''eth'', wallet_file = ''eth_wallets.json'', w3 = True, sol_client = False\<rparr>"

definition sol_manager :: manager where
  "sol_manager = \<lparr>network = ''sol'', wallet_file = ''sol_wallets.json'', w3 = False, sol_client = True\<rparr>"

definition empty_world :: world where
  "empty_world = \<lparr>files = (\<lambda>p. Missing), tick = 0\<rparr>"

definition sol_wallet_1 :: json where
  "sol_wallet_1 = JObject [(''chain'', JString ''sol''), (''address'', JString ''So7''),
                           (''private_key'', JString ''c3''), (''created_at'', JInt 100)]"

definition sol_wallet_2 :: json where
  "sol_wallet_2 = JObject [(''chain'', JString ''sol''), (''address'', JString ''So8''),
                           (''private_key'', JString ''d4''), (''created_at'', JInt 101)]"

definition two_sol_world :: world where
  "two_sol_world =
     \<lparr>files = (\<lambda>p. if p = ''sol_wallets.json'' then Stored (JArray [sol_wallet_1, sol_wallet_2])
                    else Missing),
      tick = 0\<rparr>"

definition malformed_world :: world where
  "malformed_world = \<lparr>files = (\<lambda>p. if p = ''eth_wallets.json'' then Malformed else Missing), tick = 0\<rparr>"

definition undecodable_world :: world where
  "undecodable_world = \<lparr>files = (\<lambda>p. if p = ''eth_wallets.json'' then Undecodable else Missing), tick = 0\<rparr>"

definition too_deep_world :: world where
  "too_deep_world = \<lparr>files = (\<lambda>p. if p = ''eth_wallets.json'' then TooDeep else Missing), tick = 0\<rparr>"

definition dict_world :: world where
  "dict_world = \<lparr>files = (\<lambda>p. if p = ''eth_wallets.json'' then Stored (JObject []) else Missing), tick = 0\<rparr>"

section \<open>The constructor\<close>

lemma init_Inr:
  assumes "WalletManager_init e net = Inr m"
  shows "network m = net" and "net = ''eth'' \<or> net = ''sol''"
    and "net = ''eth'' \<Longrightarrow> w3 m" and "net = ''sol'' \<Longrightarrow> sol_client m"
    and "wallet_file m = (if net = ''sol'' then ''sol_wallets.json'' else ''eth_wallets.json'')"
  using assms
  by (auto simp: WalletManager_init_def NETWORKS_def WALLET_FILES_def split: if_splits option.splits)

lemma init_eth: "WalletManager_init demo_env ''eth'' = Inr eth_manager"
  by (simp add: WalletManager_init_def NETWORKS_def WALLET_FILES_def demo_env_def eth_manager_def)

lemma init_sol: "WalletManager_init demo_env ''sol'' = Inr sol_manager"
  by (simp add: WalletManager_init_def NETWORKS_def WALLET_FILES_def demo_env_def sol_manager_def)

section \<open>Loading the wallet file\<close>

lemma load_wallets_by_state:
  "load_wallets m w =
     (case files w (wallet_file m) of
        Missing \<Rightarrow> Inr (JArray [])
      | Unreadable \<Rightarrow> Inl IOError
      | Undecodable \<Rightarrow> Inl UnicodeDecodeError
      | Malformed \<Rightarrow> Inr (JArray [])
      | TooDeep \<Rightarrow> Inl RecursionError
      | Stored v \<Rightarrow> Inr v)"
  by (simp add: load_wallets_def read_json_def split: disk_file.splits)

text \<open>
  C9, as stated: a corrupt file is recovered as the empty collection and never
  escalated to the caller. The handler names \<^verbatim>\<open>json.JSONDecodeError\<close> only: a file
  whose bytes are not text raises \<^verbatim>\<open>UnicodeDecodeError\<close> to the caller, and one nested
  beyond the recursion limit raises \<^verbatim>\<open>RecursionError\<close>.
\<close>

theorem load_wallets_corrupt_counterexample:
  "load_wallets eth_manager undecodable_world = Inl UnicodeDecodeError
   \<and> load_wallets eth_manager too_deep_world = Inl RecursionError"
  by (simp add: load_wallets_by_state eth_manager_def undecodable_world_def too_deep_world_def)

text \<open>
  C9, amended: loading from a missing file, or from a file whose text
  \<^verbatim>\<open>json.load\<close> rejects with \<^verbatim>\<open>JSONDecodeError\<close>, yields the empty collection and
  raises nothing; the load raises exactly when the file cannot be opened, cannot be
  decoded, or nests too deep, and then the exception is the one of that failure.
\<close>

theorem load_wallets_recovery:
  "(files w (wallet_file m) = Missing \<or> files w (wallet_file m) = Malformed
      \<longrightarrow> load_wallets m w = Inr (JArray []))
   \<and> (load_wallets m w = Inl x \<longleftrightarrow>
        (files w (wallet_file m) = Unreadable \<and> x = IOError)
        \<or> (files w (wallet_file m) = Undecodable \<and> x = UnicodeDecodeError)
        \<or> (files w (wallet_file m) = TooDeep \<and> x = RecursionError))"
  by (auto simp: load_wallets_by_state split: disk_file.splits)

theorem load_wallets_recovery_witness:
  "files empty_world (wallet_file eth_manager) = Missing
   \<and> load_wallets eth_manager empty_world = Inr (JArray [])
   \<and> files malformed_world (wallet_file eth_manager) = Malformed
   \<and> load_wallets eth_manager malformed_world = Inr (JArray [])
   \<and> files undecodable_world (wallet_file eth_manager) = Undecodable
   \<and> load_wallets eth_manager undecodable_world = Inl UnicodeDecodeError"
  using load_wallets_recovery [of empty_world eth_manager UnicodeDecodeError]
    load_wallets_recovery [of malformed_world eth_manager UnicodeDecodeError]
    load_wallets_recovery [of undecodable_world eth_manager UnicodeDecodeError]
  by (simp add: empty_world_def malformed_world_def undecodable_world_def eth_manager_def)

text \<open>
  A file holding JSON that is not a list loads without complaint; the failure comes
  later, where the value is used as a list. With \<^verbatim>\<open>{}\<close> in the file,
  \<^verbatim>\<open>create_wallets\<close> draws its key pair and then fails on \<^verbatim>\<open>extend\<close>, and
  \<^verbatim>\<open>manage_wallets(0)\<close> fails on the slice.
\<close>

lemma load_wallets_not_a_list:
  "load_wallets eth_manager dict_world = Inr (JObject [])
   \<and> create_wallets demo_env eth_manager 1 ''eth'' dict_world
       = (Inl AttributeError, dict_world\<lparr>tick := 1\<rparr>)
   \<and> manage_wallets demo_env eth_manager 0 ''eth'' dict_world = (Inl KeyError, dict_world)"
  by (simp add: manage_wallets_def create_wallets_def load_wallets_by_state mint_def
      demo_env_def eth_manager_def dict_world_def)

section \<open>Balance queries\<close>

text \<open>
  C10. For a chain argument that is neither \<^verbatim>\<open>'eth'\<close> nor \<^verbatim>\<open>'sol'\<close>, the
  \<^verbatim>\<open>ValueError\<close> raised in the last branch is caught by the function's own handler,
  and the call returns \<^verbatim>\<open>0.0\<close>, for every address and every manager.
\<close>

theorem get_balance_unsupported_chain:
  "ch \<noteq> ''eth'' \<Longrightarrow> ch \<noteq> ''sol'' \<Longrightarrow> get_balance e m addr ch = Inr 0"
  by (simp add: get_balance_def query_balance_def caught_by_get_balance_def)

theorem get_balance_unsupported_chain_witness:
  "''btc'' \<noteq> ''eth'' \<and> ''btc'' \<noteq> ''sol'' \<and> get_balance demo_env eth_manager ''0xA'' ''btc'' = Inr 0"
  using get_balance_unsupported_chain [of "''btc''" demo_env eth_manager "''0xA''"]
  by simp

text \<open>
  C1. The claim: \<^verbatim>\<open>get_balance(address, chain)\<close> returns a float and never raises, for
  every address and every chain; a failed query gives \<^verbatim>\<open>0.0\<close>. The code breaks it: a
  manager constructed for \<^verbatim>\<open>'sol'\<close> has no attribute \<^verbatim>\<open>w3\<close>, and \<^verbatim>\<open>get_balance\<close>,
  unlike \<^verbatim>\<open>create_wallets\<close> and \<^verbatim>\<open>manage_wallets\<close>, does not compare the chain with the
  manager's network. A query for chain \<^verbatim>\<open>'eth'\<close> (the default of the parameter) then
  fails with \<^verbatim>\<open>AttributeError\<close>, which the handler does not name, instead of
  returning \<^verbatim>\<open>0.0\<close>.
\<close>

theorem get_balance_other_chain_raises:
  "WalletManager_init demo_env ''sol'' = Inr sol_manager
   \<and> get_balance demo_env sol_manager ''0xA'' ''eth'' = Inl AttributeError"
  by (simp add: WalletManager_init_def NETWORKS_def WALLET_FILES_def demo_env_def
      sol_manager_def get_balance_def query_balance_def caught_by_get_balance_def)

section \<open>Generating wallets\<close>

subsection \<open>The loop\<close>

lemma mint_Inl:
  "mint e m ch t = Inl x \<Longrightarrow> x = AttributeError \<or> stamp_rpc e ch t = Inl x"
  by (auto simp: mint_def stamp_rpc_def split: if_splits sum.splits)

lemma mint_loop_Inl:
  "fst (mint_loop e m ch n t acc) = Inl x
   \<Longrightarrow> x = AttributeError \<or> (\<exists>i<n. stamp_rpc e ch (t + i) = Inl x)"
proof (induction n arbitrary: t acc)
  case 0
  then show ?case by simp
next
  case (Suc n)
  show ?case
  proof (cases "mint e m ch t")
    case (Inl y)
    with Suc.prems have "y = x" by simp
    with Inl mint_Inl [of e m ch t x] have "x = AttributeError \<or> stamp_rpc e ch (t + 0) = Inl x"
      by simp
    then show ?thesis by blast
  next
    case (Inr wl)
    with Suc.prems have "fst (mint_loop e m ch n (Suc t) (acc @ [wl])) = Inl x" by simp
    from Suc.IH [OF this] show ?thesis
    proof
      assume "x = AttributeError"
      then show ?thesis by simp
    next
      assume "\<exists>i<n. stamp_rpc e ch (Suc t + i) = Inl x"
      then obtain i where "i < n" "stamp_rpc e ch (t + Suc i) = Inl x" by auto
      then have "Suc i < Suc n \<and> stamp_rpc e ch (t + Suc i) = Inl x" by simp
      then show ?thesis by blast
    qed
  qed
qed

lemma mint_ok:
  assumes "ch = ''eth'' \<or> ch = ''sol''" "ch = ''eth'' \<Longrightarrow> w3 m" "ch = ''sol'' \<Longrightarrow> sol_client m"
    and "\<not> isl (stamp_rpc e ch t)"
  shows "\<exists>r. mint e m ch t = Inr r \<and> dict_get r ''chain'' = Some (JString ch)"
  using assms by (auto simp: mint_def stamp_rpc_def split: sum.splits)

lemma mint_loop_ok:
  assumes "ch = ''eth'' \<or> ch = ''sol''" "ch = ''eth'' \<Longrightarrow> w3 m" "ch = ''sol'' \<Longrightarrow> sol_client m"
    and "\<forall>i<n. \<not> isl (stamp_rpc e ch (t + i))"
  shows "\<exists>new. mint_loop e m ch n t acc = (Inr (acc @ new), t + n) \<and> length new = n
           \<and> (\<forall>r\<in>set new. dict_get r ''chain'' = Some (JString ch))"
  using assms(4)
proof (induction n arbitrary: t acc)
  case 0
  then show ?case by simp
next
  case (Suc n)
  from Suc.prems have "\<not> isl (stamp_rpc e ch (t + 0))" by blast
  with mint_ok [OF assms(1-3), of e t] obtain r where
    r: "mint e m ch t = Inr r" "dict_get r ''chain'' = Some (JString ch)"
    by auto
  from Suc.prems have "\<forall>i<n. \<not> isl (stamp_rpc e ch (Suc t + i))" by auto
  from Suc.IH [OF this, of "acc @ [r]"] obtain new where
    new: "mint_loop e m ch n (Suc t) (acc @ [r]) = (Inr ((acc @ [r]) @ new), Suc t + n)"
      "length new = n" "\<forall>x\<in>set new. dict_get x ''chain'' = Some (JString ch)" by blast
  show ?case
    using r new by (intro exI [of _ "r # new"]) simp
qed

lemma load_after_write:
  "load_wallets m (w\<lparr>files := (files w)(wallet_file m := Stored v), tick := t\<rparr>) = Inr v"
  by (simp add: load_wallets_by_state)

lemma load_tick: "load_wallets m (w\<lparr>tick := t\<rparr>) = load_wallets m w"
  by (simp add: load_wallets_def)

lemma create_wallets_ok:
  assumes init: "WalletManager_init e ch = Inr m"
    and n: "0 \<le> n"
    and ld: "load_wallets m w = Inr (JArray ws)"
    and rpc: "\<forall>i<nat n. \<not> isl (stamp_rpc e ch (tick w + i))"
    and wr: "disk_write e (tick w + nat n) = WriteOk"
  shows "\<exists>new. create_wallets e m n ch w =
            (Inr new, w\<lparr>files := (files w)(wallet_file m := Stored (JArray (ws @ new))),
                        tick := Suc (tick w + nat n)\<rparr>)
          \<and> int (length new) = n \<and> (\<forall>r\<in>set new. dict_get r ''chain'' = Some (JString ch))"
proof -
  note i = init_Inr [OF init]
  from mint_loop_ok [OF i(2) i(3) i(4) rpc, of "[]"] obtain new where
    new: "mint_loop e m ch (nat n) (tick w) [] = (Inr new, tick w + nat n)"
      "length new = nat n" "\<forall>r\<in>set new. dict_get r ''chain'' = Some (JString ch)" by auto
  have "create_wallets e m n ch w =
      (Inr new, w\<lparr>files := (files w)(wallet_file m := Stored (JArray (ws @ new))),
                  tick := Suc (tick w + nat n)\<rparr>)"
    using n i(1) i(2) ld new(1) wr by (auto simp: create_wallets_def save_wallets_def)
  with new(2,3) n show ?thesis by auto
qed

subsection \<open>Validation\<close>

text \<open>
  C8, as stated: \<^verbatim>\<open>create_wallets\<close> fails with a \<^verbatim>\<open>ValueError\<close> exactly when one of
  its three preconditions is violated. The converse fails: with a count of 1 on the
  manager's own, supported chain, a wallet file whose bytes cannot be decoded makes the
  load raise \<^verbatim>\<open>UnicodeDecodeError\<close>, an instance of \<^verbatim>\<open>ValueError\<close>, which
  \<^verbatim>\<open>create_wallets\<close> lets through.
\<close>

theorem create_wallets_ValueError_counterexample:
  "(0::int) \<le> 1 \<and> ''eth'' \<in> set [''eth'', ''sol''] \<and> ''eth'' = network eth_manager
   \<and> fst (create_wallets demo_env eth_manager 1 ''eth'' undecodable_world) = Inl UnicodeDecodeError
   \<and> is_ValueError UnicodeDecodeError"
  by (simp add: create_wallets_def load_wallets_by_state eth_manager_def undecodable_world_def)

text \<open>
  C8, amended: \<^verbatim>\<open>create_wallets\<close> fails with a \<^verbatim>\<open>ValueError\<close> whenever the count is
  negative, or the chain is not one of the two supported values, or the chain differs
  from the manager's network; and then the world is the one before the call: the file is
  as it was and no key pair was drawn. When none of the three holds, a \<^verbatim>\<open>ValueError\<close>
  can still reach the caller, but only one raised by the load of the wallet file or by
  one of the timestamp queries of the loop.
\<close>

theorem create_wallets_validation:
  "(n < 0 \<or> ch \<notin> {''eth'', ''sol''} \<or> ch \<noteq> network m
      \<longrightarrow> create_wallets e m n ch w = (Inl ValueError, w))
   \<and> (\<not> (n < 0 \<or> ch \<notin> {''eth'', ''sol''} \<or> ch \<noteq> network m)
      \<and> fst (create_wallets e m n ch w) = Inl x \<and> is_ValueError x
      \<longrightarrow> load_wallets m w = Inl x \<or> (\<exists>i<nat n. stamp_rpc e ch (tick w + i) = Inl x))"
proof -
  have pre: "create_wallets e m n ch w = (Inl ValueError, w)"
    if "n < 0 \<or> ch \<notin> {''eth'', ''sol''} \<or> ch \<noteq> network m"
    using that by (auto simp: create_wallets_def)
  have post: "load_wallets m w = Inl x \<or> (\<exists>i<nat n. stamp_rpc e ch (tick w + i) = Inl x)"
    if ok: "\<not> (n < 0 \<or> ch \<notin> {''eth'', ''sol''} \<or> ch \<noteq> network m)"
      and fails: "fst (create_wallets e m n ch w) = Inl x" and cls: "is_ValueError x"
  proof (cases "load_wallets m w")
    case (Inl y)
    with ok fails have "y = x" by (auto simp: create_wallets_def)
    with Inl show ?thesis by simp
  next
    case (Inr wallets)
    obtain r t where ml: "mint_loop e m ch (nat n) (tick w) [] = (r, t)"
      by (cases "mint_loop e m ch (nat n) (tick w) []")
    show ?thesis
    proof (cases r)
      case (Inl y)
      with ok fails Inr ml have "y = x" by (auto simp: create_wallets_def)
      with Inl ml have "fst (mint_loop e m ch (nat n) (tick w) []) = Inl x" by simp
      from mint_loop_Inl [OF this] cls show ?thesis by auto
    next
      case new: (Inr new)
      show ?thesis
      proof (cases "py_extend wallets new")
        case (Inl y)
        then have "y = AttributeError" by (cases wallets) auto
        with Inl ok fails Inr ml new have "x = AttributeError" by (auto simp: create_wallets_def)
        with cls show ?thesis by simp
      next
        case ext: (Inr extended)
        from ok fails Inr ml new ext have "x = IOError"
          by (auto simp: create_wallets_def save_wallets_def split: write_outcome.splits)
        with cls show ?thesis by simp
      qed
    qed
  qed
  from pre post show ?thesis by blast
qed

theorem create_wallets_validation_witness:
  "create_wallets demo_env eth_manager (- 1) ''eth'' empty_world = (Inl ValueError, empty_world)
   \<and> create_wallets demo_env eth_manager 1 ''btc'' empty_world = (Inl ValueError, empty_world)
   \<and> create_wallets demo_env eth_manager 1 ''sol'' empty_world = (Inl ValueError, empty_world)
   \<and> fst (create_wallets demo_env eth_manager 1 ''eth'' undecodable_world) = Inl UnicodeDecodeError
   \<and> load_wallets eth_manager undecodable_world = Inl UnicodeDecodeError"
proof -
  have u: "fst (create_wallets demo_env eth_manager 1 ''eth'' undecodable_world) = Inl UnicodeDecodeError"
    by (simp add: create_wallets_def load_wallets_by_state eth_manager_def undecodable_world_def)
  have l: "load_wallets eth_manager undecodable_world = Inl UnicodeDecodeError"
    by (simp add: load_wallets_by_state eth_manager_def undecodable_world_def)
  show ?thesis
    using create_wallets_validation [of "- 1" "''eth''" eth_manager demo_env empty_world ValueError]
      create_wallets_validation [of 1 "''btc''" eth_manager demo_env empty_world ValueError]
      create_wallets_validation [of 1 "''sol''" eth_manager demo_env empty_world ValueError]
      create_wallets_validation [of 1 "''eth''" eth_manager demo_env undecodable_world UnicodeDecodeError]
      u l
    by (simp add: eth_manager_def)
qed

subsection \<open>Growth of the collection\<close>

text \<open>
  C6. On a constructed manager, for \<open>n \<ge> 0\<close> and the manager's own chain, when the
  file loads as a list, the \<open>n\<close> timestamp queries answer and the write succeeds,
  \<^verbatim>\<open>create_wallets\<close> returns \<open>n\<close> records, each with the requested chain, and a reload
  yields the previous collection followed by exactly those records: its length grew by
  \<open>n\<close>.
\<close>

theorem create_wallets_then_reload:
  assumes "WalletManager_init e ch = Inr m"
    and "0 \<le> n"
    and "load_wallets m w = Inr (JArray ws)"
    and "\<forall>i<nat n. \<not> isl (stamp_rpc e ch (tick w + i))"
    and "disk_write e (tick w + nat n) = WriteOk"
  shows "\<exists>new. fst (create_wallets e m n ch w) = Inr new
           \<and> int (length new) = n
           \<and> (\<forall>r\<in>set new. dict_get r ''chain'' = Some (JString ch))
           \<and> load_wallets m (snd (create_wallets e m n ch w)) = Inr (JArray (ws @ new))
           \<and> int (length (ws @ new)) = int (length ws) + n"
proof -
  from create_wallets_ok [OF assms] obtain new where
    cw: "create_wallets e m n ch w =
           (Inr new, w\<lparr>files := (files w)(wallet_file m := Stored (JArray (ws @ new))),
                       tick := Suc (tick w + nat n)\<rparr>)"
    and len: "int (length new) = n"
    and ch: "\<forall>r\<in>set new. dict_get r ''chain'' = Some (JString ch)"
    by blast
  from cw have "load_wallets m (snd (create_wallets e m n ch w)) = Inr (JArray (ws @ new))"
    by (simp add: load_after_write)
  with cw len ch show ?thesis by (intro exI [of _ new]) simp
qed

theorem create_wallets_then_reload_witness:
  "WalletManager_init demo_env ''sol'' = Inr sol_manager
   \<and> load_wallets sol_manager two_sol_world = Inr (JArray [sol_wallet_1, sol_wallet_2])
   \<and> disk_write demo_env 2 = WriteOk
   \<and> (\<exists>new. fst (create_wallets demo_env sol_manager 2 ''sol'' two_sol_world) = Inr new
           \<and> int (length new) = 2
           \<and> map (\<lambda>r. dict_get r ''chain'') new = [Some (JString ''sol''), Some (JString ''sol'')]
           \<and> load_wallets sol_manager (snd (create_wallets demo_env sol_manager 2 ''sol'' two_sol_world))
               = Inr (JArray ([sol_wallet_1, sol_wallet_2] @ new)))"
proof -
  have h1: "WalletManager_init demo_env ''sol'' = Inr sol_manager" by (rule init_sol)
  have h2: "(0 :: int) \<le> 2" by simp
  have h3: "load_wallets sol_manager two_sol_world = Inr (JArray [sol_wallet_1, sol_wallet_2])"
    by (simp add: load_wallets_by_state sol_manager_def two_sol_world_def)
  have h4: "\<forall>i<nat 2. \<not> isl (stamp_rpc demo_env ''sol'' (tick two_sol_world + i))"
    by (simp add: stamp_rpc_def demo_env_def)
  have h5: "disk_write demo_env (tick two_sol_world + nat 2) = WriteOk"
    by (simp add: demo_env_def)
  have h6: "disk_write demo_env 2 = WriteOk" by (simp add: demo_env_def)
  from create_wallets_then_reload [OF h1 h2 h3 h4 h5] obtain new where
    new: "fst (create_wallets demo_env sol_manager 2 ''sol'' two_sol_world) = Inr new"
      "int (length new) = 2" "\<forall>r\<in>set new. dict_get r ''chain'' = Some (JString ''sol'')"
      "load_wallets sol_manager (snd (create_wallets demo_env sol_manager 2 ''sol'' two_sol_world))
         = Inr (JArray ([sol_wallet_1, sol_wallet_2] @ new))"
    by blast
  from new(2) have "length new = 2" by simp
  then obtain a b where "new = [a, b]"
    by (cases new; cases "tl new") auto
  with new(3) have
    "map (\<lambda>r. dict_get r ''chain'') new = [Some (JString ''sol''), Some (JString ''sol'')]"
    by simp
  with new(1,2,4) h1 h3 h6 show ?thesis by auto
qed

subsection \<open>A request for no wallet\<close>




subsection \<open>A failing write\<close>




section \<open>Reaching a requested number of wallets\<close>

text \<open>
  C3. For a requested number \<open>k \<ge> 0\<close> and the manager's chain, with \<open>ws\<close> the loaded
  collection: if \<open>k\<close> is at most its size, \<^verbatim>\<open>manage_wallets\<close> returns the first \<open>k\<close>
  records and the world (file and tick) is untouched; otherwise it calls
  \<^verbatim>\<open>create_wallets\<close> for the shortfall and returns \<open>ws\<close> followed by the new records
  (or the exception of that call).
\<close>

theorem manage_wallets_cases:
  assumes "0 \<le> k" "ch = network m" "load_wallets m w = Inr (JArray ws)"
  shows "(k \<le> int (length ws) \<longrightarrow>
           manage_wallets e m k ch w = (Inr (JArray (take (nat k) ws)), w))
    \<and> (int (length ws) < k \<longrightarrow>
         manage_wallets e m k ch w =
           (case create_wallets e m (k - int (length ws)) ch w of
              (Inl x, w') \<Rightarrow> (Inl x, w')
            | (Inr new_wallets, w') \<Rightarrow> (Inr (JArray (ws @ new_wallets)), w')))"
  using assms by (simp add: manage_wallets_def split: prod.splits sum.splits)

theorem manage_wallets_cases_witness:
  "(0 :: int) \<le> 1 \<and> ''sol'' = network sol_manager
   \<and> load_wallets sol_manager two_sol_world = Inr (JArray [sol_wallet_1, sol_wallet_2])
   \<and> (1 :: int) \<le> int (length [sol_wallet_1, sol_wallet_2])
   \<and> manage_wallets demo_env sol_manager 1 ''sol'' two_sol_world
       = (Inr (JArray [sol_wallet_1]), two_sol_world)
   \<and> (0 :: int) \<le> 3
   \<and> int (length [sol_wallet_1, sol_wallet_2]) < 3
   \<and> manage_wallets demo_env sol_manager 3 ''sol'' two_sol_world =
        (case create_wallets demo_env sol_manager (3 - int (length [sol_wallet_1, sol_wallet_2])) ''sol'' two_sol_world of
           (Inl x, w') \<Rightarrow> (Inl x, w')
         | (Inr new_wallets, w') \<Rightarrow> (Inr (JArray ([sol_wallet_1, sol_wallet_2] @ new_wallets)), w'))
   \<and> fst (manage_wallets demo_env sol_manager 3 ''sol'' two_sol_world) =
        Inr (JArray [sol_wallet_1, sol_wallet_2,
               JObject [(''chain'', JString ''sol''), (''address'', JString ''So1''),
                        (''private_key'', JString ''b2''), (''created_at'', JInt 250)]])"
proof -
  have h1: "''sol'' = network sol_manager" by (simp add: sol_manager_def)
  have h2: "load_wallets sol_manager two_sol_world = Inr (JArray [sol_wallet_1, sol_wallet_2])"
    by (simp add: load_wallets_by_state sol_manager_def two_sol_world_def)
  have a: "(0 :: int) \<le> 1" and b: "(0 :: int) \<le> 3" by simp_all
  note t1 = manage_wallets_cases [OF a h1 h2, of demo_env]
  note t3 = manage_wallets_cases [OF b h1 h2, of demo_env]
  have cw: "create_wallets demo_env sol_manager 1 ''sol'' two_sol_world =
     (Inr [JObject [(''chain'', JString ''sol''), (''address'', JString ''So1''),
                    (''private_key'', JString ''b2''), (''created_at'', JInt 250)]],
      two_sol_world\<lparr>files := (files two_sol_world)(''sol_wallets.json'' :=
          Stored (JArray [sol_wallet_1, sol_wallet_2,
             JObject [(''chain'', JString ''sol''), (''address'', JString ''So1''),
                      (''private_key'', JString ''b2''), (''created_at'', JInt 250)]])),
        tick := 2\<rparr>)"
    by (simp add: create_wallets_def load_wallets_by_state mint_def save_wallets_def demo_env_def
        sol_manager_def two_sol_world_def)
  from t1 t3 h1 h2 cw show ?thesis by simp
qed

text \<open>
  C4. On a constructed manager, when the first call \<^verbatim>\<open>manage_wallets(k, chain)\<close> can do
  its work (the file loads as a list, and if there is a shortfall the timestamp queries
  answer and the write succeeds), the collection afterwards is the old one followed by
  the new records, of size \<open>max k size_before\<close>, and the second call returns the same
  list as the first and leaves the world exactly as the first call left it: no key pair
  is drawn and nothing is written.
\<close>

theorem manage_wallets_idempotent:
  assumes init: "WalletManager_init e ch = Inr m"
    and k: "0 \<le> k"
    and ld: "load_wallets m w = Inr (JArray ws)"
    and rpc: "\<forall>i<nat (k - int (length ws)). \<not> isl (stamp_rpc e ch (tick w + i))"
    and wr: "int (length ws) < k \<longrightarrow> disk_write e (tick w + nat (k - int (length ws))) = WriteOk"
  shows "\<exists>w1 ws1 more.
           manage_wallets e m k ch w = (Inr (JArray (take (nat k) ws1)), w1)
         \<and> load_wallets m w1 = Inr (JArray ws1)
         \<and> ws1 = ws @ more
         \<and> int (length ws1) = max k (int (length ws))
         \<and> manage_wallets e m k ch w1 = (Inr (JArray (take (nat k) ws1)), w1)"
proof (cases "k \<le> int (length ws)")
  case True
  with k ld init_Inr(1) [OF init] have
    "manage_wallets e m k ch w = (Inr (JArray (take (nat k) ws)), w)"
    by (simp add: manage_wallets_def)
  with ld True show ?thesis by (intro exI [of _ w] exI [of _ ws] exI [of _ "[]"]) simp
next
  case False
  then have gt: "0 \<le> k - int (length ws)" by simp
  from False wr have wr': "disk_write e (tick w + nat (k - int (length ws))) = WriteOk" by simp
  from create_wallets_ok [OF init gt ld rpc wr'] obtain new where
    cw: "create_wallets e m (k - int (length ws)) ch w =
           (Inr new, w\<lparr>files := (files w)(wallet_file m := Stored (JArray (ws @ new))),
                       tick := Suc (tick w + nat (k - int (length ws)))\<rparr>)"
    and len: "int (length new) = k - int (length ws)" by blast
  let ?w1 = "w\<lparr>files := (files w)(wallet_file m := Stored (JArray (ws @ new))),
                tick := Suc (tick w + nat (k - int (length ws)))\<rparr>"
  have l1: "load_wallets m ?w1 = Inr (JArray (ws @ new))" by (rule load_after_write)
  from len have lk: "int (length (ws @ new)) = k" by simp
  then have tk: "take (nat k) (ws @ new) = ws @ new" by simp
  have first: "manage_wallets e m k ch w = (Inr (JArray (ws @ new)), ?w1)"
    using False k ld init_Inr(1) [OF init] cw by (simp add: manage_wallets_def)
  have second: "manage_wallets e m k ch ?w1 = (Inr (JArray (take (nat k) (ws @ new))), ?w1)"
    using k init_Inr(1) [OF init] l1 lk by (simp add: manage_wallets_def)
  from first second l1 lk tk False show ?thesis
    by (intro exI [of _ ?w1] exI [of _ "ws @ new"] exI [of _ new]) simp
qed

theorem manage_wallets_idempotent_witness:
  "WalletManager_init demo_env ''sol'' = Inr sol_manager
   \<and> load_wallets sol_manager two_sol_world = Inr (JArray [sol_wallet_1, sol_wallet_2])
   \<and> stamp_rpc demo_env ''sol'' 0 = Inr 250
   \<and> disk_write demo_env 1 = WriteOk
   \<and> (\<exists>w1 ws1 more.
           manage_wallets demo_env sol_manager 3 ''sol'' two_sol_world
             = (Inr (JArray (take (nat 3) ws1)), w1)
         \<and> load_wallets sol_manager w1 = Inr (JArray ws1)
         \<and> ws1 = [sol_wallet_1, sol_wallet_2] @ more
         \<and> int (length ws1) = 3
         \<and> manage_wallets demo_env sol_manager 3 ''sol'' w1 = (Inr (JArray (take (nat 3) ws1)), w1))"
proof -
  have h1: "WalletManager_init demo_env ''sol'' = Inr sol_manager" by (rule init_sol)
  have h2: "(0 :: int) \<le> 3" by simp
  have h3: "load_wallets sol_manager two_sol_world = Inr (JArray [sol_wallet_1, sol_wallet_2])"
    by (simp add: load_wallets_by_state sol_manager_def two_sol_world_def)
  have s0: "stamp_rpc demo_env ''sol'' 0 = Inr 250"
    by (simp add: stamp_rpc_def demo_env_def)
  have h4: "\<forall>i<nat (3 - int (length [sol_wallet_1, sol_wallet_2])).
         \<not> isl (stamp_rpc demo_env ''sol'' (tick two_sol_world + i))"
    by (simp add: s0 two_sol_world_def)
  have d1: "disk_write demo_env 1 = WriteOk" by (simp add: demo_env_def)
  have h5: "int (length [sol_wallet_1, sol_wallet_2]) < 3 \<longrightarrow>
         disk_write demo_env (tick two_sol_world + nat (3 - int (length [sol_wallet_1, sol_wallet_2]))) = WriteOk"
    by (simp add: demo_env_def)
  have mx: "max 3 (int (length [sol_wallet_1, sol_wallet_2])) = 3" by simp
  from manage_wallets_idempotent [OF h1 h2 h3 h4 h5] h1 h3 s0 d1 show ?thesis
    unfolding mx by blast
qed

subsection \<open>Records in the file across calls\<close>

lemma save_keeps_prefix:
  assumes "disk_write e (tick w) \<noteq> DumpFails" "load_wallets m w = Inr (JArray ws)"
  shows "\<exists>more. load_wallets m (snd (save_wallets e m (JArray (ws @ new)) w)) = Inr (JArray (ws @ more))"
proof (cases "disk_write e (tick w)")
  case WriteOk
  then show ?thesis by (simp add: save_wallets_def load_after_write)
next
  case OpenFails
  with assms(2) show ?thesis by (simp add: save_wallets_def load_tick)
next
  case DumpFails
  with assms(1) show ?thesis by simp
qed

lemma create_wallets_keeps_prefix:
  assumes nd: "\<forall>t. disk_write e t \<noteq> DumpFails" and ld: "load_wallets m w = Inr (JArray ws)"
  shows "\<exists>more. load_wallets m (snd (create_wallets e m n ch w)) = Inr (JArray (ws @ more))"
proof (cases "n < 0 \<or> ch \<notin> set [''eth'', ''sol''] \<or> ch \<noteq> network m")
  case True
  then have "snd (create_wallets e m n ch w) = w" by (auto simp: create_wallets_def)
  with ld show ?thesis by simp
next
  case False
  obtain r t where ml: "mint_loop e m ch (nat n) (tick w) [] = (r, t)"
    by (cases "mint_loop e m ch (nat n) (tick w) []")
  show ?thesis
  proof (cases r)
    case (Inl x)
    with False ld ml have "snd (create_wallets e m n ch w) = w\<lparr>tick := t\<rparr>"
      by (auto simp: create_wallets_def)
    with ld show ?thesis by (simp add: load_tick)
  next
    case (Inr new)
    with False ld ml have
      "snd (create_wallets e m n ch w) = snd (save_wallets e m (JArray (ws @ new)) (w\<lparr>tick := t\<rparr>))"
      by (auto simp: create_wallets_def split: prod.splits sum.splits)
    moreover from nd have "disk_write e (tick (w\<lparr>tick := t\<rparr>)) \<noteq> DumpFails" by simp
    moreover from ld have "load_wallets m (w\<lparr>tick := t\<rparr>) = Inr (JArray ws)" by (simp add: load_tick)
    ultimately show ?thesis using save_keeps_prefix [of e "w\<lparr>tick := t\<rparr>" m ws new] by simp
  qed
qed

lemma manage_wallets_keeps_prefix:
  assumes nd: "\<forall>t. disk_write e t \<noteq> DumpFails" and ld: "load_wallets m w = Inr (JArray ws)"
  shows "\<exists>more. load_wallets m (snd (manage_wallets e m k ch w)) = Inr (JArray (ws @ more))"
proof (cases "k < 0 \<or> ch \<noteq> network m \<or> k \<le> int (length ws)")
  case True
  with ld have "snd (manage_wallets e m k ch w) = w" by (auto simp: manage_wallets_def)
  with ld show ?thesis by simp
next
  case False
  with ld have "snd (manage_wallets e m k ch w) = snd (create_wallets e m (k - int (length ws)) ch w)"
    by (simp add: manage_wallets_def split: prod.splits sum.splits)
  with create_wallets_keeps_prefix [OF nd ld] show ?thesis by simp
qed

text \<open>
  C5, as stated: \<^verbatim>\<open>manage_wallets\<close> never removes existing records, for any sequence of
  decreasing requested values. It can: the write of a shortfall first truncates the
  file, and when that write is cut off the file is left without its records. With two
  records stored, the calls for 3 and then 0 wallets on such a disk leave an empty
  collection.
\<close>

theorem manage_calls_removes_counterexample:
  "load_wallets sol_manager two_sol_world = Inr (JArray [sol_wallet_1, sol_wallet_2])
   \<and> load_wallets sol_manager (manage_calls torn_disk_env sol_manager [3, 0] ''sol'' two_sol_world)
       = Inr (JArray [])"
  by (simp add: manage_wallets_def create_wallets_def load_wallets_by_state mint_def
      save_wallets_def torn_disk_env_def demo_env_def sol_manager_def two_sol_world_def)

text \<open>
  C5, amended: provided no write of the wallet file is cut off after the file was
  opened for writing, after any sequence of \<^verbatim>\<open>manage_wallets\<close> calls (decreasing
  requested numbers included), whatever each call returned or raised, the collection
  that was loaded before is a prefix of the collection loaded afterwards: same records,
  same order.
\<close>

theorem manage_calls_never_removes:
  assumes nd: "\<forall>t. disk_write e t \<noteq> DumpFails"
  shows "load_wallets m w = Inr (JArray ws)
    \<Longrightarrow> \<exists>more. load_wallets m (manage_calls e m ks ch w) = Inr (JArray (ws @ more))"
proof (induction ks arbitrary: w ws)
  case Nil
  then show ?case by simp
next
  case (Cons k ks)
  from manage_wallets_keeps_prefix [OF nd Cons.prems, of k ch] obtain more1 where
    "load_wallets m (snd (manage_wallets e m k ch w)) = Inr (JArray (ws @ more1))" by blast
  from Cons.IH [OF this] obtain more2 where
    "load_wallets m (manage_calls e m ks ch (snd (manage_wallets e m k ch w)))
       = Inr (JArray ((ws @ more1) @ more2))"
    by blast
  then show ?case by (intro exI [of _ "more1 @ more2"]) simp
qed

theorem manage_calls_never_removes_witness:
  "disk_write demo_env = (\<lambda>t. WriteOk)
   \<and> load_wallets sol_manager two_sol_world = Inr (JArray [sol_wallet_1, sol_wallet_2])
   \<and> (\<exists>more. load_wallets sol_manager (manage_calls demo_env sol_manager [3, 2, 1] ''sol'' two_sol_world)
         = Inr (JArray ([sol_wallet_1, sol_wallet_2] @ more)))"
proof -
  have d: "disk_write demo_env = (\<lambda>t. WriteOk)" by (simp add: demo_env_def)
  have h1: "\<forall>t. disk_write demo_env t \<noteq> DumpFails" by (simp add: d)
  have h2: "load_wallets sol_manager two_sol_world = Inr (JArray [sol_wallet_1, sol_wallet_2])"
    by (simp add: load_wallets_by_state sol_manager_def two_sol_world_def)
  from manage_calls_never_removes [OF h1 h2] d h2 show ?thesis by blast
qed

end
